theory Spec2Isabelle
  imports Complex_Main "HOL-Library.Char_ord" "HOL-Library.List_Lexorder" "HOL-Library.Sublist"
begin

section \<open>Drama Catalog API: the values of the program\<close>

text \<open>
  The server (\<^verbatim>\<open>src/server.js\<close>) keeps one array \<^verbatim>\<open>db.data.dramas\<close> in a JSON file.
  Every handler re-reads the file first and every mutation writes it back, so the
  catalog that one request leaves to the next is a list of JSON objects. Request
  bodies are JSON as well. A JSON object is a finite map from keys to values; a
  property that is \<^verbatim>\<open>undefined\<close> is an absent key (\<open>None\<close>), which is also what
  \<^verbatim>\<open>JSON.stringify\<close> makes of it.
\<close>

datatype json =
    JNull
  | JBool bool
  | JNum rat
  | JStr string
  | JArr "json list"
  | JObj "string \<Rightarrow> json option"

type_synonym drama = "string \<rightharpoonup> json"

text \<open>
  A JavaScript number is a double. Finite values are kept as the rational they denote
  and arithmetic on them is exact: rounding and the sign of zero are not modelled
  (the program computes with array lengths, page numbers and years, and every number
  leaves the server through JSON, which prints both zeros as \<^verbatim>\<open>0\<close>).
\<close>

datatype jsnum = NaN | PosInf | NegInf | Fin rat

datatype error = TypeError | RangeError

subsection \<open>Built-ins of the runtime\<close>

text \<open>
  The handlers call library functions whose results depend on Unicode tables, on the
  grammar of numeric literals and on the engine (the order \<^verbatim>\<open>sort\<close> gives to elements
  its comparator does not order, the number of arguments one call can take). They are
  parameters of the model: every theorem below holds for all of them.
\<close>

record builtins =
  toLowerCase :: "string \<Rightarrow> string"
  trim :: "string \<Rightarrow> string"
  StringToNumber :: "string \<Rightarrow> jsnum"
  NumberToString :: "rat \<Rightarrow> string"
  ArraySort :: "(drama \<Rightarrow> drama \<Rightarrow> int) \<Rightarrow> drama list \<Rightarrow> drama list"
  maxArguments :: nat

subsection \<open>Strings\<close>

function show_nat :: "nat \<Rightarrow> string" where
  "show_nat n = (if n < 10 then [''0123456789'' ! n]
                 else show_nat (n div 10) @ [''0123456789'' ! (n mod 10)])"
  by pat_completeness auto
termination
  by (relation "measure id") auto

declare show_nat.simps [simp del]

text \<open>\<^verbatim>\<open>s.includes(q)\<close>: \<open>q\<close> occurs in \<open>s\<close> as a contiguous run of code units.\<close>

definition includes_str :: "string \<Rightarrow> string \<Rightarrow> bool" where
  "includes_str s q = sublist q s"

text \<open>\<^verbatim>\<open>String(sort).split(':')\<close>: the pieces between the colons.\<close>

fun split_colon :: "string \<Rightarrow> string list" where
  "split_colon [] = [[]]"
| "split_colon (c # cs) =
     (if c = CHR '':'' then [] # split_colon cs
      else (case split_colon cs of [] \<Rightarrow> [[c]] | p # ps \<Rightarrow> (c # p) # ps))"

fun join_comma :: "string list \<Rightarrow> string" where
  "join_comma [] = []"
| "join_comma [s] = s"
| "join_comma (s # t # ts) = s @ '','' @ join_comma (t # ts)"

subsection \<open>Truthiness and \<^verbatim>\<open>||\<close>\<close>

definition truthy :: "json \<Rightarrow> bool" where
  "truthy v = (case v of
       JNull \<Rightarrow> False
     | JBool b \<Rightarrow> b
     | JNum q \<Rightarrow> q \<noteq> 0
     | JStr s \<Rightarrow> s \<noteq> []
     | JArr xs \<Rightarrow> True
     | JObj m \<Rightarrow> True)"

text \<open>\<^verbatim>\<open>x || d\<close> where \<open>x\<close> is a property read (\<open>None\<close> is \<^verbatim>\<open>undefined\<close>).\<close>

definition or_else :: "json option \<Rightarrow> json \<Rightarrow> json" where
  "or_else x d = (case x of None \<Rightarrow> d | Some v \<Rightarrow> if truthy v then v else d)"

subsection \<open>Own properties and spread\<close>

text \<open>
  The own enumerable properties of a value, which is what \<^verbatim>\<open>{...v}\<close> copies: the
  entries of an object, the elements of an array under their indices, the characters
  of a string under theirs, and nothing for the other primitives.
\<close>

definition indexed :: "json list \<Rightarrow> string \<rightharpoonup> json" where
  "indexed xs = map_of (zip (map show_nat [0..<length xs]) xs)"

definition own_props :: "json \<Rightarrow> string \<rightharpoonup> json" where
  "own_props v = (case v of
       JObj m \<Rightarrow> m
     | JArr xs \<Rightarrow> indexed xs
     | JStr s \<Rightarrow> indexed (map (\<lambda>c. JStr [c]) s)
     | _ \<Rightarrow> Map.empty)"

text \<open>\<^verbatim>\<open>{...b}\<close> for a request body \<open>b\<close>, which is \<^verbatim>\<open>undefined\<close> when nothing was parsed.\<close>

definition spread :: "json option \<Rightarrow> string \<rightharpoonup> json" where
  "spread b = (case b of None \<Rightarrow> Map.empty | Some v \<Rightarrow> own_props v)"

subsection \<open>Conversion to string and to number\<close>

primrec ToString :: "builtins \<Rightarrow> json \<Rightarrow> string" where
  "ToString rt JNull = ''null''"
| "ToString rt (JBool b) = (if b then ''true'' else ''false'')"
| "ToString rt (JNum q) = NumberToString rt q"
| "ToString rt (JStr s) = s"
| "ToString rt (JArr xs) =
     join_comma (map (\<lambda>x. if x = JNull then [] else ToString rt x) xs)"
| "ToString rt (JObj m) = ''[object Object]''"

text \<open>\<^verbatim>\<open>Number(v)\<close>. An array or an object is converted through its string.\<close>

definition ToNumber :: "builtins \<Rightarrow> json \<Rightarrow> jsnum" where
  "ToNumber rt v = (case v of
       JNull \<Rightarrow> Fin 0
     | JBool b \<Rightarrow> Fin (if b then 1 else 0)
     | JNum q \<Rightarrow> Fin q
     | JStr s \<Rightarrow> StringToNumber rt s
     | JArr xs \<Rightarrow> StringToNumber rt (ToString rt (JArr xs))
     | JObj m \<Rightarrow> StringToNumber rt (ToString rt (JObj m)))"

definition Number :: "builtins \<Rightarrow> json option \<Rightarrow> jsnum" where
  "Number rt x = (case x of None \<Rightarrow> NaN | Some v \<Rightarrow> ToNumber rt v)"

text \<open>
  What JSON makes of a number: \<^verbatim>\<open>NaN\<close> and the infinities are written \<^verbatim>\<open>null\<close>.
\<close>

definition num_json :: "jsnum \<Rightarrow> json" where
  "num_json n = (case n of Fin q \<Rightarrow> JNum q | _ \<Rightarrow> JNull)"

definition num_falsy :: "jsnum \<Rightarrow> bool" where
  "num_falsy n = (n = NaN \<or> n = Fin 0)"

subsection \<open>Arithmetic and comparison of numbers\<close>

fun num_add :: "jsnum \<Rightarrow> jsnum \<Rightarrow> jsnum" where
  "num_add (Fin a) (Fin b) = Fin (a + b)"
| "num_add NaN _ = NaN"
| "num_add _ NaN = NaN"
| "num_add PosInf NegInf = NaN"
| "num_add NegInf PosInf = NaN"
| "num_add PosInf _ = PosInf"
| "num_add _ PosInf = PosInf"
| "num_add NegInf _ = NegInf"
| "num_add _ NegInf = NegInf"

fun num_neg :: "jsnum \<Rightarrow> jsnum" where
  "num_neg NaN = NaN"
| "num_neg PosInf = NegInf"
| "num_neg NegInf = PosInf"
| "num_neg (Fin a) = Fin (- a)"

definition num_sub :: "jsnum \<Rightarrow> jsnum \<Rightarrow> jsnum" where
  "num_sub a b = num_add a (num_neg b)"

fun num_sgn :: "jsnum \<Rightarrow> int" where
  "num_sgn NaN = 0"
| "num_sgn PosInf = 1"
| "num_sgn NegInf = - 1"
| "num_sgn (Fin a) = (if a = 0 then 0 else if 0 < a then 1 else - 1)"

definition signed_inf :: "int \<Rightarrow> jsnum" where
  "signed_inf s = (if s = 0 then NaN else if 0 < s then PosInf else NegInf)"

definition num_mul :: "jsnum \<Rightarrow> jsnum \<Rightarrow> jsnum" where
  "num_mul a b = (case (a, b) of
       (Fin x, Fin y) \<Rightarrow> Fin (x * y)
     | _ \<Rightarrow> if a = NaN \<or> b = NaN then NaN else signed_inf (num_sgn a * num_sgn b))"

text \<open>
  Division. A finite value over zero is an infinity (or \<^verbatim>\<open>NaN\<close> for \<^verbatim>\<open>0/0\<close>); its sign
  is taken from the numerator, the zero counting as positive.
\<close>

fun num_div :: "jsnum \<Rightarrow> jsnum \<Rightarrow> jsnum" where
  "num_div NaN _ = NaN"
| "num_div _ NaN = NaN"
| "num_div (Fin a) (Fin b) = (if b = 0 then signed_inf (num_sgn (Fin a)) else Fin (a / b))"
| "num_div (Fin a) _ = Fin 0"
| "num_div a (Fin b) = signed_inf (num_sgn a * (if b < 0 then - 1 else 1))"
| "num_div _ _ = NaN"

fun num_ceil :: "jsnum \<Rightarrow> jsnum" where
  "num_ceil (Fin a) = Fin (of_int \<lceil>a\<rceil>)"
| "num_ceil n = n"

text \<open>
  The comparison \<open>a < b\<close> of two numbers; \<open>None\<close> is the \<^verbatim>\<open>undefined\<close> that a \<^verbatim>\<open>NaN\<close>
  operand gives. \<^verbatim>\<open>a >= b\<close> is true when \<open>a < b\<close> is \<open>false\<close> (not when it is
  undefined), and \<^verbatim>\<open>a <= b\<close> when \<open>b < a\<close> is \<open>false\<close>.
\<close>

fun num_less :: "jsnum \<Rightarrow> jsnum \<Rightarrow> bool option" where
  "num_less (Fin a) (Fin b) = Some (a < b)"
| "num_less NaN _ = None"
| "num_less _ NaN = None"
| "num_less PosInf _ = Some False"
| "num_less _ PosInf = Some True"
| "num_less _ NegInf = Some False"
| "num_less NegInf _ = Some True"

definition num_ge :: "jsnum \<Rightarrow> jsnum \<Rightarrow> bool" where
  "num_ge a b = (num_less a b = Some False)"

definition num_le :: "jsnum \<Rightarrow> jsnum \<Rightarrow> bool" where
  "num_le a b = (num_less b a = Some False)"

text \<open>
  The relational comparison \<open>x < y\<close> of two values: objects and arrays are replaced by
  their strings; two strings are compared by code units, anything else as numbers.
\<close>

definition ToPrimitive :: "builtins \<Rightarrow> json \<Rightarrow> json" where
  "ToPrimitive rt v = (case v of
       JArr xs \<Rightarrow> JStr (ToString rt v)
     | JObj m \<Rightarrow> JStr (ToString rt v)
     | _ \<Rightarrow> v)"

definition IsLessThan :: "builtins \<Rightarrow> json \<Rightarrow> json \<Rightarrow> bool option" where
  "IsLessThan rt x y = (case (ToPrimitive rt x, ToPrimitive rt y) of
       (JStr a, JStr b) \<Rightarrow> Some (a < b)
     | (px, py) \<Rightarrow> num_less (ToNumber rt px) (ToNumber rt py))"

section \<open>The program\<close>

subsection \<open>Array operations\<close>

definition trunc :: "rat \<Rightarrow> int" where
  "trunc q = (if q < 0 then \<lceil>q\<rceil> else \<lfloor>q\<rfloor>)"

text \<open>
  \<^verbatim>\<open>array.slice(start, end)\<close>: each bound is truncated to an integer (\<^verbatim>\<open>NaN\<close> is 0),
  a negative one counts from the end of the array, and both are clamped to the array.
\<close>

definition slice_index :: "nat \<Rightarrow> jsnum \<Rightarrow> nat" where
  "slice_index len n = (case n of
       NaN \<Rightarrow> 0
     | NegInf \<Rightarrow> 0
     | PosInf \<Rightarrow> len
     | Fin q \<Rightarrow> (let i = trunc q in
                  if i < 0 then nat (max (int len + i) 0) else nat (min i (int len))))"

definition slice :: "'a list \<Rightarrow> jsnum \<Rightarrow> jsnum \<Rightarrow> 'a list" where
  "slice array start stop =
     (let k = slice_index (length array) start;
          final = slice_index (length array) stop
      in take (final - k) (drop k array))"

text \<open>\<^verbatim>\<open>findIndex\<close>: the first index whose element satisfies \<open>p\<close>; \<open>None\<close> is \<^verbatim>\<open>-1\<close>.\<close>

fun findIndex :: "('a \<Rightarrow> bool) \<Rightarrow> 'a list \<Rightarrow> nat option" where
  "findIndex p [] = None"
| "findIndex p (x # xs) =
     (if p x then Some 0 else map_option Suc (findIndex p xs))"

text \<open>
  \<^verbatim>\<open>filter\<close> and \<^verbatim>\<open>some\<close> with a callback that may throw: the elements are visited in
  order and the first exception ends the call.
\<close>

fun filter_throwing :: "('a \<Rightarrow> error + bool) \<Rightarrow> 'a list \<Rightarrow> error + 'a list" where
  "filter_throwing p [] = Inr []"
| "filter_throwing p (x # xs) =
     (case p x of
        Inl e \<Rightarrow> Inl e
      | Inr b \<Rightarrow> (case filter_throwing p xs of
                   Inl e \<Rightarrow> Inl e
                 | Inr ys \<Rightarrow> Inr (if b then x # ys else ys)))"

fun some_throwing :: "('a \<Rightarrow> error + bool) \<Rightarrow> 'a list \<Rightarrow> error + bool" where
  "some_throwing p [] = Inr False"
| "some_throwing p (x # xs) =
     (case p x of
        Inl e \<Rightarrow> Inl e
      | Inr b \<Rightarrow> if b then Inr True else some_throwing p xs)"

text \<open>
  \<^verbatim>\<open>Array.from({ length: n }, f)\<close>: the length is truncated and clamped to
  \<open>0 .. 2^53 - 1\<close>; an array longer than \<open>2^32 - 1\<close> cannot be created.
\<close>

definition ToLength :: "jsnum \<Rightarrow> nat" where
  "ToLength n = (case n of
       NaN \<Rightarrow> 0
     | NegInf \<Rightarrow> 0
     | PosInf \<Rightarrow> 2 ^ 53 - 1
     | Fin q \<Rightarrow> nat (min (max (trunc q) 0) (2 ^ 53 - 1)))"

definition array_from :: "jsnum \<Rightarrow> (nat \<Rightarrow> 'a) \<Rightarrow> error + 'a list" where
  "array_from n f =
     (let len = ToLength n
      in if len > 2 ^ 32 - 1 then Inl RangeError else Inr (map f [0..<len]))"

subsection \<open>Pagination (lines 33-43)\<close>

record paged =
  items :: "drama list"
  page :: jsnum
  limit :: jsnum
  total :: nat
  pages :: jsnum

text \<open>An argument that is not passed (\<open>None\<close>) takes its default, 1 or 24.\<close>

definition paginate :: "drama list \<Rightarrow> jsnum option \<Rightarrow> jsnum option \<Rightarrow> paged" where
  "paginate array page_arg limit_arg =
     (let page = (case page_arg of None \<Rightarrow> Fin 1 | Some p \<Rightarrow> p);
          limit = (case limit_arg of None \<Rightarrow> Fin 24 | Some l \<Rightarrow> l);
          start = num_mul (num_sub page (Fin 1)) limit;
          stop = num_add start limit
      in \<lparr> items = slice array start stop,
           page = page,
           limit = limit,
           total = length array,
           pages = num_ceil (num_div (Fin (of_nat (length array))) limit) \<rparr>)"

text \<open>\<^verbatim>\<open>res.json(pg)\<close>.\<close>

definition paged_json :: "paged \<Rightarrow> json" where
  "paged_json pg = JObj
     [''items'' \<mapsto> JArr (map JObj (items pg)),
      ''page'' \<mapsto> num_json (page pg),
      ''limit'' \<mapsto> num_json (limit pg),
      ''total'' \<mapsto> JNum (of_nat (total pg)),
      ''pages'' \<mapsto> num_json (pages pg)]"

subsection \<open>Requests, responses and the environment\<close>

text \<open>
  What a handler reads of a request: the \<^verbatim>\<open>x-api-key\<close> header, the \<^verbatim>\<open>:id\<close> segment
  of the path, the query string and the parsed JSON body (\<open>None\<close> when there is
  none). Query parameters are strings: a repeated or bracketed parameter, which
  Express turns into an array or an object, is not modelled. The body is parsed by
  \<^verbatim>\<open>express.json\<close> before any route runs; when the parser rejects it instead,
  \<open>parse_error\<close> is the status of its error (400 for text that is not JSON, 413 for
  a body over the limit of line 23). What a handler reads of its environment: the
  shared secret, the successive readings \<^verbatim>\<open>new Date().toISOString()\<close> of the clock
  and the successive results of \<^verbatim>\<open>nanoid(12)\<close>, each numbered from 0 within the
  request.
\<close>

record request =
  x_api_key :: "string option"
  params_id :: string
  query :: "string \<rightharpoonup> string"
  body :: "json option"
  parse_error :: "nat option"

record env =
  API_KEY :: string
  clock :: "nat \<Rightarrow> string"
  nanoid :: "nat \<Rightarrow> string"

text \<open>
  A response is a status with a JSON body, or the page that the error handler of
  Express writes for an error with a status, which is not JSON.
\<close>

datatype response = Response nat json | ErrorPage nat

text \<open>
  A handler ends with a response or by throwing, and leaves a catalog behind.
  Failures of the file system are not modelled.
\<close>

type_synonym outcome = "(error + response) \<times> drama list"

definition has_id :: "string \<Rightarrow> drama \<Rightarrow> bool" where
  "has_id x d = (d ''id'' = Some (JStr x))"

definition not_found :: response where
  "not_found = Response 404 (JObj [''error'' \<mapsto> JStr ''Not found''])"

subsection \<open>The API key (lines 26-30)\<close>

text \<open>\<open>None\<close> is the call of \<^verbatim>\<open>next()\<close>.\<close>

definition requireKey :: "env \<Rightarrow> request \<Rightarrow> response option" where
  "requireKey ev req =
     (if x_api_key req \<noteq> Some (API_KEY ev)
      then Some (Response 401 (JObj [''error'' \<mapsto> JStr ''Unauthorized'']))
      else None)"

subsection \<open>List (lines 51-100)\<close>

text \<open>\<^verbatim>\<open>v?.toLowerCase().includes(q)\<close>; the \<^verbatim>\<open>undefined\<close> of a missing \<open>v\<close> is falsy.\<close>

definition lower_includes :: "builtins \<Rightarrow> json option \<Rightarrow> string \<Rightarrow> error + bool" where
  "lower_includes rt v q = (case v of
       None \<Rightarrow> Inr False
     | Some JNull \<Rightarrow> Inr False
     | Some (JStr s) \<Rightarrow> Inr (includes_str (toLowerCase rt s) q)
     | Some _ \<Rightarrow> Inl TypeError)"

definition search_match :: "builtins \<Rightarrow> string \<Rightarrow> drama \<Rightarrow> error + bool" where
  "search_match rt q d =
     (case lower_includes rt (d ''title'') q of
        Inl e \<Rightarrow> Inl e
      | Inr b \<Rightarrow> if b then Inr True else lower_includes rt (d ''description'') q)"

definition search_step :: "builtins \<Rightarrow> string \<Rightarrow> drama list \<Rightarrow> error + drama list" where
  "search_step rt search list =
     (if search \<noteq> [] then filter_throwing (search_match rt (toLowerCase rt search)) list
      else Inr list)"

definition genre_match :: "builtins \<Rightarrow> string \<Rightarrow> drama \<Rightarrow> error + bool" where
  "genre_match rt g d =
     (case or_else (d ''genres'') (JArr []) of
        JArr xs \<Rightarrow>
          some_throwing
            (\<lambda>x. case x of JStr s \<Rightarrow> Inr (toLowerCase rt s = g) | _ \<Rightarrow> Inl TypeError) xs
      | _ \<Rightarrow> Inl TypeError)"

definition status_match :: "builtins \<Rightarrow> string \<Rightarrow> drama \<Rightarrow> error + bool" where
  "status_match rt s d =
     (case or_else (d ''status'') (JStr []) of
        JStr t \<Rightarrow> Inr (toLowerCase rt t = s)
      | _ \<Rightarrow> Inl TypeError)"

text \<open>
  A filter whose query parameter is absent or empty is skipped. The right operand of
  \<^verbatim>\<open>>=\<close> and \<^verbatim>\<open><=\<close> is a number, so the left one is compared as a number.
\<close>

definition param_step ::
  "(string \<Rightarrow> drama \<Rightarrow> error + bool) \<Rightarrow> string option \<Rightarrow> drama list \<Rightarrow> error + drama list" where
  "param_step match param list = (case param of
       None \<Rightarrow> Inr list
     | Some v \<Rightarrow> if v \<noteq> [] then filter_throwing (match v) list else Inr list)"

definition min_year_ok :: "builtins \<Rightarrow> string \<Rightarrow> drama \<Rightarrow> bool" where
  "min_year_ok rt min_year d =
     num_ge (ToNumber rt (or_else (d ''year'') (JNum 0))) (StringToNumber rt min_year)"

definition max_year_ok :: "builtins \<Rightarrow> string \<Rightarrow> drama \<Rightarrow> bool" where
  "max_year_ok rt max_year d =
     num_le (ToNumber rt (or_else (d ''year'') (JNum 9999))) (StringToNumber rt max_year)"

definition year_step ::
  "(string \<Rightarrow> drama \<Rightarrow> bool) \<Rightarrow> string option \<Rightarrow> drama list \<Rightarrow> drama list" where
  "year_step ok param list = (case param of
       None \<Rightarrow> list
     | Some v \<Rightarrow> if v \<noteq> [] then filter (ok v) list else list)"

text \<open>
  The comparator of the sort (lines 90-96). \<^verbatim>\<open>a[field] ?? 0\<close> replaces a missing or
  \<^verbatim>\<open>null\<close> property by 0; only own properties are modelled.
\<close>

definition nullish_or :: "json option \<Rightarrow> json \<Rightarrow> json" where
  "nullish_or x d = (case x of None \<Rightarrow> d | Some JNull \<Rightarrow> d | Some v \<Rightarrow> v)"

definition sort_compare :: "builtins \<Rightarrow> string \<Rightarrow> string option \<Rightarrow> drama \<Rightarrow> drama \<Rightarrow> int" where
  "sort_compare rt field dir a b =
     (let av = nullish_or (a field) (JNum 0);
          bv = nullish_or (b field) (JNum 0)
      in if IsLessThan rt av bv = Some True then (if dir = Some ''desc'' then 1 else - 1)
         else if IsLessThan rt bv av = Some True then (if dir = Some ''desc'' then - 1 else 1)
         else 0)"

text \<open>
  \<^verbatim>\<open>const [field, dir] = String(sort).split(':')\<close>; \<open>dir\<close> is \<^verbatim>\<open>undefined\<close> when there
  is no colon. \<^verbatim>\<open>split\<close> returns at least one piece.
\<close>

definition sort_step :: "builtins \<Rightarrow> string \<Rightarrow> drama list \<Rightarrow> drama list" where
  "sort_step rt sort_param list =
     (case split_colon sort_param of
        [] \<Rightarrow> list
      | [field] \<Rightarrow> ArraySort rt (sort_compare rt field None) list
      | field # dir # _ \<Rightarrow> ArraySort rt (sort_compare rt field (Some dir)) list)"

definition and_then :: "error + 'a \<Rightarrow> ('a \<Rightarrow> error + 'b) \<Rightarrow> error + 'b" where
  "and_then r f = (case r of Inl e \<Rightarrow> Inl e | Inr x \<Rightarrow> f x)"

definition with_default :: "string option \<Rightarrow> string \<Rightarrow> string" where
  "with_default x d = (case x of None \<Rightarrow> d | Some v \<Rightarrow> v)"

definition list_dramas :: "builtins \<Rightarrow> request \<Rightarrow> drama list \<Rightarrow> outcome" where
  "list_dramas rt req dramas =
     (let q = query req;
          filtered =
            and_then (search_step rt (with_default (q ''search'') []) dramas) (\<lambda>l1.
            and_then (param_step (\<lambda>g. genre_match rt (toLowerCase rt g)) (q ''genre'') l1) (\<lambda>l2.
            and_then (param_step (\<lambda>s. status_match rt (toLowerCase rt s)) (q ''status'') l2) (\<lambda>l3.
            Inr (year_step (max_year_ok rt) (q ''max_year'')
                  (year_step (min_year_ok rt) (q ''min_year'') l3)))))
      in (and_then filtered (\<lambda>list.
            Inr (Response 200 (paged_json
              (paginate (sort_step rt (with_default (q ''sort'') ''updated_at:desc'') list)
                 (Some (StringToNumber rt (with_default (q ''page'') ''1'')))
                 (Some (StringToNumber rt (with_default (q ''limit'') ''24''))))))),
          dramas))"

subsection \<open>Detail (lines 103-108)\<close>

definition get_drama :: "request \<Rightarrow> drama list \<Rightarrow> outcome" where
  "get_drama req dramas =
     (case find (has_id (params_id req)) dramas of
        None \<Rightarrow> (Inr not_found, dramas)
      | Some item \<Rightarrow> (Inr (Response 200 (JObj item)), dramas))"

subsection \<open>Create (lines 111-137)\<close>

text \<open>\<^verbatim>\<open>req.body || {}\<close>.\<close>

definition payload_of :: "json option \<Rightarrow> json" where
  "payload_of b = or_else b (JObj Map.empty)"

text \<open>
  \<^verbatim>\<open>payload.title?.trim() || 'Untitled'\<close>. The \<^verbatim>\<open>?.\<close> stops at a missing or \<^verbatim>\<open>null\<close>
  title only: any other value that is not a string has no \<^verbatim>\<open>trim\<close> to call.
\<close>

definition title_of :: "builtins \<Rightarrow> json \<Rightarrow> error + json" where
  "title_of rt payload = (case own_props payload ''title'' of
       None \<Rightarrow> Inr (JStr ''Untitled'')
     | Some JNull \<Rightarrow> Inr (JStr ''Untitled'')
     | Some (JStr s) \<Rightarrow> Inr (JStr (if trim rt s \<noteq> [] then trim rt s else ''Untitled''))
     | Some _ \<Rightarrow> Inl TypeError)"

text \<open>\<^verbatim>\<open>Array.isArray(x) ? x : []\<close>.\<close>

definition array_or_empty :: "json option \<Rightarrow> json" where
  "array_or_empty x = (case x of Some (JArr xs) \<Rightarrow> JArr xs | _ \<Rightarrow> JArr [])"

text \<open>
  \<^verbatim>\<open>year: Number(payload.year) || undefined\<close>: the key is absent from the stored and
  from the returned record when the number is \<^verbatim>\<open>NaN\<close> or 0.
\<close>

definition year_entry :: "builtins \<Rightarrow> json \<Rightarrow> drama" where
  "year_entry rt payload =
     (let n = Number rt (own_props payload ''year'')
      in if num_falsy n then Map.empty else [''year'' \<mapsto> num_json n])"

definition rating_of :: "builtins \<Rightarrow> json \<Rightarrow> json" where
  "rating_of rt payload =
     (let n = Number rt (own_props payload ''rating'')
      in if num_falsy n then JNum 0 else num_json n)"

definition create_item :: "builtins \<Rightarrow> string \<Rightarrow> string \<Rightarrow> json \<Rightarrow> error + drama" where
  "create_item rt now new_id payload =
     and_then (title_of rt payload) (\<lambda>title. Inr (
       [''id'' \<mapsto> JStr new_id,
        ''title'' \<mapsto> title,
        ''original_title'' \<mapsto> or_else (own_props payload ''original_title'') (JStr []),
        ''country'' \<mapsto> or_else (own_props payload ''country'') (JStr ''China''),
        ''genres'' \<mapsto> array_or_empty (own_props payload ''genres''),
        ''status'' \<mapsto> or_else (own_props payload ''status'') (JStr ''Ongoing''),
        ''rating'' \<mapsto> rating_of rt payload,
        ''poster_url'' \<mapsto> or_else (own_props payload ''poster_url'') (JStr []),
        ''banner_url'' \<mapsto> or_else (own_props payload ''banner_url'') (JStr []),
        ''description'' \<mapsto> or_else (own_props payload ''description'') (JStr []),
        ''cast'' \<mapsto> array_or_empty (own_props payload ''cast''),
        ''tags'' \<mapsto> array_or_empty (own_props payload ''tags''),
        ''episodes'' \<mapsto> array_or_empty (own_props payload ''episodes''),
        ''created_at'' \<mapsto> JStr now,
        ''updated_at'' \<mapsto> JStr now]
       ++ year_entry rt payload))"

definition create_drama :: "builtins \<Rightarrow> env \<Rightarrow> request \<Rightarrow> drama list \<Rightarrow> outcome" where
  "create_drama rt ev req dramas =
     (let now = clock ev 0;
          payload = payload_of (body req);
          new_id = nanoid ev 0
      in case create_item rt now new_id payload of
           Inl e \<Rightarrow> (Inl e, dramas)
         | Inr item \<Rightarrow> (Inr (Response 201 (JObj item)), item # dramas))"

subsection \<open>Update (lines 140-148)\<close>

text \<open>\<^verbatim>\<open>{ ...existing, ...req.body, updated_at: now }\<close>.\<close>

definition update_item :: "drama \<Rightarrow> json option \<Rightarrow> string \<Rightarrow> drama" where
  "update_item existing b now = (existing ++ spread b)(''updated_at'' \<mapsto> JStr now)"

definition update_drama :: "env \<Rightarrow> request \<Rightarrow> drama list \<Rightarrow> outcome" where
  "update_drama ev req dramas =
     (case findIndex (has_id (params_id req)) dramas of
        None \<Rightarrow> (Inr not_found, dramas)
      | Some idx \<Rightarrow>
          (let now = clock ev 0;
               item = update_item (dramas ! idx) (body req) now
           in (Inr (Response 200 (JObj item)), dramas[idx := item])))"

subsection \<open>Delete (lines 151-157)\<close>

definition delete_drama :: "request \<Rightarrow> drama list \<Rightarrow> outcome" where
  "delete_drama req dramas =
     (let before = length dramas;
          kept = filter (\<lambda>d. \<not> has_id (params_id req) d) dramas
      in (Inr (Response 200 (JObj
            [''ok'' \<mapsto> JBool True,
             ''deleted'' \<mapsto> JNum (of_nat (before - length kept))])),
          kept))"

subsection \<open>Seed (lines 160-187)\<close>

definition episode :: "rat \<Rightarrow> string \<Rightarrow> string \<Rightarrow> json" where
  "episode n t url = JObj
     [''number'' \<mapsto> JNum n, ''title'' \<mapsto> JStr t,
      ''stream_url'' \<mapsto> JStr url, ''subtitle_url'' \<mapsto> JStr []]"

text \<open>
  The \<open>i\<close>-th sample. Building it calls \<^verbatim>\<open>nanoid\<close> once and reads the clock twice.
\<close>

definition sample :: "env \<Rightarrow> nat \<Rightarrow> drama" where
  "sample ev i =
     [''id'' \<mapsto> JStr (nanoid ev i),
      ''title'' \<mapsto> JStr (''Sample C-Drama '' @ show_nat (i + 1)),
      ''original_title'' \<mapsto> JStr [],
      ''year'' \<mapsto> JNum 2024,
      ''country'' \<mapsto> JStr ''China'',
      ''genres'' \<mapsto> JArr [JStr ''Romance'', JStr ''Historical''],
      ''status'' \<mapsto> JStr (if i mod 2 = 0 then ''Ongoing'' else ''Completed''),
      ''rating'' \<mapsto> JNum (41 / 5),
      ''poster_url'' \<mapsto> JStr
        ''https://images.unsplash.com/photo-1520975682031-6ca0b2d0f33b?q=80&w=800&auto=format&fit=crop'',
      ''banner_url'' \<mapsto> JStr
        ''https://images.unsplash.com/photo-1517816630740-0b93f606a0d4?q=80&w=1600&auto=format&fit=crop'',
      ''description'' \<mapsto> JStr
        ''Lorem ipsum dolor sit amet, a short synopsis for sample content.'',
      ''cast'' \<mapsto> JArr [JStr ''Lead A'', JStr ''Lead B''],
      ''tags'' \<mapsto> JArr [JStr ''sub indo'', JStr ''1080p''],
      ''episodes'' \<mapsto> JArr
        [episode 1 ''Episode 1'' ''https://example.com/stream1'',
         episode 2 ''Episode 2'' ''https://example.com/stream2''],
      ''created_at'' \<mapsto> JStr (clock ev (2 * i)),
      ''updated_at'' \<mapsto> JStr (clock ev (2 * i + 1))]"

text \<open>
  \<^verbatim>\<open>const { count = 6 } = req.query\<close>, then \<^verbatim>\<open>Number(count)\<close>: the default is the
  number 6, a parameter that is present is a string.
\<close>

definition seed_count :: "builtins \<Rightarrow> request \<Rightarrow> jsnum" where
  "seed_count rt req = (case query req ''count'' of
       None \<Rightarrow> Fin 6
     | Some c \<Rightarrow> StringToNumber rt c)"

text \<open>
  \<^verbatim>\<open>db.data.dramas.unshift(...samples)\<close> passes every sample as an argument of one
  call, which throws when there are more than the engine accepts.
\<close>

definition seed :: "builtins \<Rightarrow> env \<Rightarrow> request \<Rightarrow> drama list \<Rightarrow> outcome" where
  "seed rt ev req dramas =
     (case array_from (seed_count rt req) (sample ev) of
        Inl e \<Rightarrow> (Inl e, dramas)
      | Inr samples \<Rightarrow>
          if length samples > maxArguments rt then (Inl RangeError, dramas)
          else (Inr (Response 200 (JObj
                  [''ok'' \<mapsto> JBool True,
                   ''added'' \<mapsto> JNum (of_nat (length samples))])),
                samples @ dramas))"

subsection \<open>Routes\<close>

datatype route =
  GetRoot | GetDramas | GetDrama | PostDramas | PutDrama | DeleteDrama | PostSeed

text \<open>A handler registered behind \<^verbatim>\<open>requireKey\<close> runs only if that calls \<^verbatim>\<open>next()\<close>.\<close>

definition behind_key :: "env \<Rightarrow> request \<Rightarrow> drama list \<Rightarrow> outcome \<Rightarrow> outcome" where
  "behind_key ev req dramas handler = (case requireKey ev req of
       Some r \<Rightarrow> (Inr r, dramas)
     | None \<Rightarrow> handler)"

definition routes :: "builtins \<Rightarrow> env \<Rightarrow> route \<Rightarrow> request \<Rightarrow> drama list \<Rightarrow> outcome" where
  "routes rt ev r req dramas = (case r of
       GetRoot \<Rightarrow>
         (Inr (Response 200 (JObj
            [''ok'' \<mapsto> JBool True,
             ''service'' \<mapsto> JStr ''Drama Catalog API'',
             ''version'' \<mapsto> JStr ''1.0.0''])), dramas)
     | GetDramas \<Rightarrow> list_dramas rt req dramas
     | GetDrama \<Rightarrow> get_drama req dramas
     | PostDramas \<Rightarrow> behind_key ev req dramas (create_drama rt ev req dramas)
     | PutDrama \<Rightarrow> behind_key ev req dramas (update_drama ev req dramas)
     | DeleteDrama \<Rightarrow> behind_key ev req dramas (delete_drama req dramas)
     | PostSeed \<Rightarrow> behind_key ev req dramas (seed rt ev req dramas))"

text \<open>
  The application (lines 20-23 and the routes). Every request passes
  \<^verbatim>\<open>express.json\<close> before its route and before \<^verbatim>\<open>requireKey\<close>: when the parser rejects
  the body, its error goes to the error handler, no route runs and the catalog is not
  read. \<^verbatim>\<open>helmet\<close> and \<^verbatim>\<open>cors\<close> only set headers of the response.
\<close>

definition app :: "builtins \<Rightarrow> env \<Rightarrow> route \<Rightarrow> request \<Rightarrow> drama list \<Rightarrow> outcome" where
  "app rt ev r req dramas = (case parse_error req of
       Some st \<Rightarrow> (Inr (ErrorPage st), dramas)
     | None \<Rightarrow> routes rt ev r req dramas)"

subsection \<open>Catalog invariant\<close>

definition ids :: "drama list \<Rightarrow> json option list" where
  "ids dramas = map (\<lambda>d. d ''id'') dramas"

definition unique_ids :: "drama list \<Rightarrow> bool" where
  "unique_ids dramas = distinct (ids dramas)"

section \<open>Concrete built-ins for running the model\<close>

text \<open>
  To evaluate the handlers on concrete requests, built-ins that agree with
  JavaScript's on ASCII letters and blanks and on plain decimal integers.
\<close>

definition ascii_lower :: "char \<Rightarrow> char" where
  "ascii_lower c =
     (case map_of (zip ''ABCDEFGHIJKLMNOPQRSTUVWXYZ'' ''abcdefghijklmnopqrstuvwxyz'') c of
        None \<Rightarrow> c
      | Some l \<Rightarrow> l)"

definition ascii_trim :: "string \<Rightarrow> string" where
  "ascii_trim s =
     (let blank = (\<lambda>c. c \<in> set [CHR '' '', CHR 0x09, CHR 0x0A, CHR 0x0D])
      in rev (dropWhile blank (rev (dropWhile blank s))))"

definition digit_value :: "char \<Rightarrow> nat option" where
  "digit_value c = map_of (zip ''0123456789'' [0, 1, 2, 3, 4, 5, 6, 7, 8, 9]) c"

fun dec_digits :: "nat \<Rightarrow> string \<Rightarrow> nat option" where
  "dec_digits acc [] = Some acc"
| "dec_digits acc (c # cs) =
     (case digit_value c of
        None \<Rightarrow> None
      | Some d \<Rightarrow> dec_digits (10 * acc + d) cs)"

definition dec_number :: "string \<Rightarrow> jsnum" where
  "dec_number s = (case s of
       [] \<Rightarrow> Fin 0
     | c # cs \<Rightarrow>
         if c = CHR ''-'' then
           (case cs of
              [] \<Rightarrow> NaN
            | _ \<Rightarrow> (case dec_digits 0 cs of None \<Rightarrow> NaN | Some n \<Rightarrow> Fin (- of_nat n)))
         else (case dec_digits 0 s of None \<Rightarrow> NaN | Some n \<Rightarrow> Fin (of_nat n)))"

definition dec_string :: "rat \<Rightarrow> string" where
  "dec_string q = (if q < 0 then ''-'' else []) @ show_nat (nat \<lfloor>\<bar>q\<bar>\<rfloor>)"

fun insert_by :: "('a \<Rightarrow> 'a \<Rightarrow> int) \<Rightarrow> 'a \<Rightarrow> 'a list \<Rightarrow> 'a list" where
  "insert_by cmp x [] = [x]"
| "insert_by cmp x (y # ys) =
     (if cmp x y \<le> 0 then x # y # ys else y # insert_by cmp x ys)"

definition stable_sort :: "('a \<Rightarrow> 'a \<Rightarrow> int) \<Rightarrow> 'a list \<Rightarrow> 'a list" where
  "stable_sort cmp xs = foldr (insert_by cmp) xs []"

definition ascii_builtins :: builtins where
  "ascii_builtins =
     \<lparr> toLowerCase = map ascii_lower,
       trim = ascii_trim,
       StringToNumber = dec_number,
       NumberToString = dec_string,
       ArraySort = stable_sort,
       maxArguments = 65536 \<rparr>"

subsection \<open>Example data\<close>

definition ex_env :: env where
  "ex_env = \<lparr> API_KEY = ''supersecretkey'',
              clock = (\<lambda>k. ''2024-05-01T10:00:00.000Z''),
              nanoid = (\<lambda>k. ''id'' @ show_nat k) \<rparr>"

definition ex_record :: drama where
  "ex_record = [''id'' \<mapsto> JStr ''a1'', ''title'' \<mapsto> JStr ''A'', ''year'' \<mapsto> JNum 2020,
     ''updated_at'' \<mapsto> JStr ''2024-05-01T10:00:00.000Z'']"

definition ex_other :: drama where
  "ex_other = [''id'' \<mapsto> JStr ''b2'', ''title'' \<mapsto> JStr ''B'']"

text \<open>A request for the record \<open>a1\<close> that carries the right key and the body \<open>b\<close>.\<close>

definition ex_put :: "json \<Rightarrow> request" where
  "ex_put b = \<lparr> x_api_key = Some ''supersecretkey'', params_id = ''a1'',
               query = Map.empty, body = Some b, parse_error = None \<rparr>"


text \<open>A request without the key.\<close>

definition ex_anon :: request where
  "ex_anon = \<lparr> x_api_key = None, params_id = ''a1'', query = Map.empty,
               body = Some (JObj [''title'' \<mapsto> JStr ''New'']), parse_error = None \<rparr>"

text \<open>A request without the key whose body is not JSON.\<close>

definition ex_rejected :: request where
  "ex_rejected = \<lparr> x_api_key = None, params_id = ''a1'', query = Map.empty,
                   body = None, parse_error = Some 400 \<rparr>"

text \<open>A list request with the query \<open>q\<close>.\<close>

definition ex_get :: "(string \<rightharpoonup> string) \<Rightarrow> request" where
  "ex_get q = \<lparr> x_api_key = None, params_id = [], query = q, body = None,
               parse_error = None \<rparr>"

text \<open>A record whose title is a number, as an update with \<open>{"title": 5}\<close> leaves it.\<close>

definition ex_untyped :: drama where
  "ex_untyped = [''id'' \<mapsto> JStr ''c3'', ''title'' \<mapsto> JNum 5,
                 ''description'' \<mapsto> JStr ''a story'']"



section \<open>Properties\<close>

subsection \<open>Auxiliary facts\<close>


lemma findIndex_Some:
  "findIndex p xs = Some i \<Longrightarrow> i < length xs \<and> p (xs ! i)"
proof (induction xs arbitrary: i)
  case Nil
  then show ?case by simp
next
  case (Cons x xs)
  then show ?case by (cases "p x") (auto simp: nth_Cons')
qed

lemma app_passed:
  "parse_error req = None \<Longrightarrow> app rt ev r req dramas = routes rt ev r req dramas"
  by (simp add: app_def)

lemma app_snd:
  "snd (app rt ev r req dramas) = dramas \<or> app rt ev r req dramas = routes rt ev r req dramas"
  by (simp add: app_def split: option.splits)

lemma behind_key_ok:
  "x_api_key req = Some (API_KEY ev) \<Longrightarrow> behind_key ev req dramas h = h"
  by (simp add: behind_key_def requireKey_def)


lemma update_item_apply:
  "update_item existing b now k =
     (if k = ''updated_at'' then Some (JStr now)
      else (case spread b k of Some v \<Rightarrow> Some v | None \<Rightarrow> existing k))"
  by (simp add: update_item_def map_add_def)













lemma at_most_one_id:
  "unique_ids dramas \<Longrightarrow> length (filter (has_id x) dramas) \<le> 1"
proof (induction dramas)
  case Nil
  then show ?case by simp
next
  case (Cons d ds)
  then have u: "unique_ids ds" and n: "d ''id'' \<notin> set (ids ds)"
    by (simp_all add: unique_ids_def ids_def)
  show ?case
  proof (cases "has_id x d")
    case True
    with n have "filter (has_id x) ds = []"
      by (force simp: filter_empty_conv has_id_def ids_def image_iff)
    with True show ?thesis by simp
  next
    case False
    with Cons.IH [OF u] show ?thesis by simp
  qed
qed

lemma deleted_count:
  "length dramas - length (filter (\<lambda>d. \<not> has_id x d) dramas) = length (filter (has_id x) dramas)"
  using sum_length_filter_compl [of "has_id x" dramas] by simp

lemma trunc_of_nat: "trunc (of_nat n) = int n"
  by (simp add: trunc_def)

lemma ToLength_of_nat: "n < 2 ^ 32 \<Longrightarrow> ToLength (Fin (of_nat n)) = n"
proof -
  assume "n < 2 ^ 32"
  then have "int n \<le> 2 ^ 53 - 1"
    by simp
  then show ?thesis
    by (simp add: ToLength_def trunc_of_nat)
qed




lemma slice_index_nat: "slice_index len (Fin (of_nat i)) = min i len"
  by (simp add: slice_index_def trunc_def)

lemma take_min_length: "take (min n (length ys)) ys = take n ys"
  by (simp add: min_def)

lemma slice_nat:
  "slice xs (Fin (of_nat a)) (Fin (of_nat a + of_nat L)) = take L (drop a xs)"
proof -
  have s: "slice_index (length xs) (Fin (of_nat a + of_nat L)) = min (a + L) (length xs)"
    using slice_index_nat [of "length xs" "a + L"] by simp
  show ?thesis
  proof (cases "a \<le> length xs")
    case True
    then have "min (a + L) (length xs) - a = min L (length xs - a)"
      by linarith
    with True take_min_length [of L "drop a xs"] show ?thesis
      by (simp add: slice_def slice_index_nat s Let_def min_absorb1)
  next
    case False
    then show ?thesis
      by (simp add: slice_def slice_index_nat s Let_def)
  qed
qed

lemma page_start:
  "1 \<le> p \<Longrightarrow> num_mul (num_sub (Fin (of_nat p)) (Fin 1)) (Fin (of_nat L)) = Fin (of_nat ((p - 1) * L))"
  by (simp add: num_mul_def num_sub_def of_nat_diff)

lemma filter_throwing_total:
  "(\<And>x. x \<in> set xs \<Longrightarrow> p x = Inr (P x)) \<Longrightarrow> filter_throwing p xs = Inr (filter P xs)"
  by (induction xs) simp_all

lemma lower_includes_text:
  assumes "v = None \<or> v = Some JNull \<or> (\<exists>s. v = Some (JStr s))"
  shows "lower_includes rt v q = Inr (\<exists>s. v = Some (JStr s) \<and> includes_str (toLowerCase rt s) q)"
  using assms by (auto simp: lower_includes_def)

lemma create_item_normalises:
  assumes "title_of rt payload = Inr t"
  shows "\<exists>item. create_item rt now i payload = Inr item
     \<and> item ''id'' = Some (JStr i)
     \<and> item ''title'' = Some t
     \<and> (Number rt (own_props payload ''year'') = NaN \<longrightarrow> item ''year'' = None)
     \<and> (num_falsy (Number rt (own_props payload ''rating'')) \<longrightarrow> item ''rating'' = Some (JNum 0))
     \<and> item ''genres'' = Some (array_or_empty (own_props payload ''genres''))
     \<and> item ''cast'' = Some (array_or_empty (own_props payload ''cast''))
     \<and> item ''tags'' = Some (array_or_empty (own_props payload ''tags''))
     \<and> item ''episodes'' = Some (array_or_empty (own_props payload ''episodes''))
     \<and> item ''created_at'' = Some (JStr now)
     \<and> item ''updated_at'' = Some (JStr now)"
  using assms
  by (simp add: create_item_def and_then_def year_entry_def rating_of_def Let_def map_add_def
        num_falsy_def)

lemma title_of_text:
  "title_of rt (JObj [''title'' \<mapsto> JStr s])
     = Inr (JStr (if trim rt s \<noteq> [] then trim rt s else ''Untitled''))"
  "title_of rt (JObj Map.empty) = Inr (JStr ''Untitled'')"
  by (simp_all add: title_of_def own_props_def)




lemma create_item_description:
  "create_item rt now i payload = Inr item \<Longrightarrow>
     item ''description'' = Some (or_else (own_props payload ''description'') (JStr []))"
  by (auto simp: create_item_def and_then_def year_entry_def Let_def map_add_def
           split: sum.splits if_splits)

text \<open>
  On records whose title and description are strings, \<open>null\<close> or absent, a non-empty
  search keeps exactly the records whose lower-cased title or description contains
  the lower-cased search string, and an empty or absent search keeps every record.
\<close>

lemma search_step_texts:
  assumes "\<forall>d \<in> set list. \<forall>k \<in> {''title'', ''description''}.
             d k = None \<or> d k = Some JNull \<or> (\<exists>s. d k = Some (JStr s))"
  shows "search_step rt search list =
           Inr (if search = [] then list
                else filter (\<lambda>d.
                  (\<exists>s. d ''title'' = Some (JStr s)
                       \<and> includes_str (toLowerCase rt s) (toLowerCase rt search))
                  \<or> (\<exists>s. d ''description'' = Some (JStr s)
                       \<and> includes_str (toLowerCase rt s) (toLowerCase rt search))) list)
       \<and> search_step rt (with_default None []) list = Inr list"
proof -
  let ?q = "toLowerCase rt search"
  let ?P = "\<lambda>d. (\<exists>s. d ''title'' = Some (JStr s) \<and> includes_str (toLowerCase rt s) ?q)
                  \<or> (\<exists>s. d ''description'' = Some (JStr s) \<and> includes_str (toLowerCase rt s) ?q)"
  have m: "search_match rt ?q d = Inr (?P d)" if "d \<in> set list" for d
  proof -
    from that assms
    have t: "d ''title'' = None \<or> d ''title'' = Some JNull \<or> (\<exists>s. d ''title'' = Some (JStr s))"
      and e: "d ''description'' = None \<or> d ''description'' = Some JNull
              \<or> (\<exists>s. d ''description'' = Some (JStr s))"
      by simp_all
    show ?thesis
      by (auto simp: search_match_def lower_includes_text [OF t] lower_includes_text [OF e])
  qed
  have "filter_throwing (search_match rt ?q) list = Inr (filter ?P list)"
    by (rule filter_throwing_total) (rule m)
  then show ?thesis
    by (simp add: search_step_def with_default_def)
qed

subsection \<open>Update\<close>

text \<open>
  Claim C1, as amended. When the update finds the record, the record it stores and
  returns is the shallow merge: every key of the payload other than \<open>updated_at\<close> has
  the payload's value (\<open>id\<close> included), every other key but \<open>updated_at\<close> keeps the
  value of the existing record, and \<open>updated_at\<close> is the reading of the server's
  clock, whether or not any other field changed.
\<close>

theorem update_merges:
  assumes "findIndex (has_id (params_id req)) dramas = Some idx"
  shows "\<exists>item. update_drama ev req dramas = (Inr (Response 200 (JObj item)), dramas[idx := item])
           \<and> item ''updated_at'' = Some (JStr (clock ev 0))
           \<and> (\<forall>k. k \<noteq> ''updated_at'' \<longrightarrow>
                 item k = (case spread (body req) k of
                             Some v \<Rightarrow> Some v
                           | None \<Rightarrow> (dramas ! idx) k))"
proof (intro exI conjI)
  show "update_drama ev req dramas =
          (Inr (Response 200 (JObj (update_item (dramas ! idx) (body req) (clock ev 0)))),
           dramas[idx := update_item (dramas ! idx) (body req) (clock ev 0)])"
    using assms by (simp add: update_drama_def Let_def)
qed (simp_all add: update_item_apply)

text \<open>
  The example of the claim: \<open>{title: "A", year: 2020}\<close> updated with \<open>{year: 2021}\<close>
  one millisecond later.
\<close>

theorem update_merges_witness:
  "findIndex (has_id (params_id (ex_put (JObj [''year'' \<mapsto> JNum 2021])))) [ex_record] = Some 0
   \<and> update_drama (ex_env\<lparr>clock := \<lambda>k. ''2024-05-01T10:00:00.001Z''\<rparr>)
        (ex_put (JObj [''year'' \<mapsto> JNum 2021])) [ex_record]
      = (Inr (Response 200 (JObj
            [''id'' \<mapsto> JStr ''a1'', ''title'' \<mapsto> JStr ''A'', ''year'' \<mapsto> JNum 2021,
             ''updated_at'' \<mapsto> JStr ''2024-05-01T10:00:00.001Z''])),
         [[''id'' \<mapsto> JStr ''a1'', ''title'' \<mapsto> JStr ''A'', ''year'' \<mapsto> JNum 2021,
             ''updated_at'' \<mapsto> JStr ''2024-05-01T10:00:00.001Z'']])"
proof -
  let ?req = "ex_put (JObj [''year'' \<mapsto> JNum 2021])"
  let ?ev = "ex_env\<lparr>clock := \<lambda>k. ''2024-05-01T10:00:00.001Z''\<rparr>"
  let ?new = "[''id'' \<mapsto> JStr ''a1'', ''title'' \<mapsto> JStr ''A'', ''year'' \<mapsto> JNum 2021,
             ''updated_at'' \<mapsto> JStr ''2024-05-01T10:00:00.001Z'']"
  have h: "findIndex (has_id (params_id ?req)) [ex_record] = Some 0"
    by (simp add: ex_put_def ex_record_def has_id_def)
  from update_merges [OF h, of ?ev]
  obtain item where
    o: "update_drama ?ev ?req [ex_record] = (Inr (Response 200 (JObj item)), [ex_record][0 := item])"
    and u: "item ''updated_at'' = Some (JStr (clock ?ev 0))"
    and m: "\<forall>k. k \<noteq> ''updated_at'' \<longrightarrow>
                 item k = (case spread (body ?req) k of
                             Some v \<Rightarrow> Some v
                           | None \<Rightarrow> ([ex_record] ! 0) k)"
    by blast
  have "item = ?new"
  proof (rule ext)
    fix k show "item k = ?new k"
      using u m [rule_format, of k]
      by (cases "k = ''updated_at''")
         (simp_all add: ex_put_def ex_record_def spread_def own_props_def)
  qed
  with o h show ?thesis by simp
qed

text \<open>
  Claim C1 as stated fails. A payload with the key \<open>updated_at\<close> does not overwrite that
  key of the record, and an update whose clock reading equals the stored \<open>updated_at\<close>
  (the same millisecond) leaves \<open>updated_at\<close> equal to its value before the update,
  not strictly later.
\<close>

theorem update_merges_counterexample:
  "update_item ex_record (Some (JObj [''updated_at'' \<mapsto> JStr ''1999-01-01T00:00:00.000Z'']))
      ''2024-05-01T10:00:00.000Z'' ''updated_at''
     = ex_record ''updated_at''
   \<and> update_item ex_record (Some (JObj [''updated_at'' \<mapsto> JStr ''1999-01-01T00:00:00.000Z'']))
      ''2024-05-01T10:00:00.000Z'' ''updated_at''
     \<noteq> Some (JStr ''1999-01-01T00:00:00.000Z'')"
  by (simp add: update_item_def ex_record_def)
text \<open>
  Claim C10. An authorised update that finds the record answers 200 with the merged
  record and stores it in the place of the old one, and the \<open>updated_at\<close> of that
  record is the reading of the server's clock taken by the handler, whatever the
  payload holds, also an \<open>updated_at\<close> of its own: the server's value is written
  after the payload. A payload's \<open>id\<close> and \<open>created_at\<close>, in contrast, do reach the
  stored record.
\<close>

theorem updated_at_server_side:
  assumes "parse_error req = None" and "x_api_key req = Some (API_KEY ev)"
    and "findIndex (has_id (params_id req)) dramas = Some idx"
  shows "\<exists>item. app rt ev PutDrama req dramas
                  = (Inr (Response 200 (JObj item)), dramas[idx := item])
           \<and> idx < length dramas
           \<and> snd (app rt ev PutDrama req dramas) ! idx = item
           \<and> item ''updated_at'' = Some (JStr (clock ev 0))
           \<and> (\<forall>v. spread (body req) ''id'' = Some v \<longrightarrow> item ''id'' = Some v)
           \<and> (\<forall>v. spread (body req) ''created_at'' = Some v \<longrightarrow> item ''created_at'' = Some v)"
proof -
  let ?item = "update_item (dramas ! idx) (body req) (clock ev 0)"
  from findIndex_Some [OF assms(3)] have l: "idx < length dramas" by simp
  have a: "app rt ev PutDrama req dramas
             = (Inr (Response 200 (JObj ?item)), dramas[idx := ?item])"
    using assms by (simp add: app_passed routes_def behind_key_ok update_drama_def Let_def)
  have "snd (app rt ev PutDrama req dramas) ! idx = ?item"
    using a l by simp
  with a l show ?thesis
    by (intro exI [of _ ?item]) (simp add: update_item_apply)
qed

theorem updated_at_server_side_witness:
  "fst (app ascii_builtins (ex_env\<lparr>clock := \<lambda>k. ''2024-05-01T10:00:00.001Z''\<rparr>) PutDrama
      (ex_put (JObj [''id'' \<mapsto> JStr ''zz'', ''created_at'' \<mapsto> JStr ''1998'',
                     ''updated_at'' \<mapsto> JStr ''1999''])) [ex_record])
     = Inr (Response 200 (JObj
         (snd (app ascii_builtins (ex_env\<lparr>clock := \<lambda>k. ''2024-05-01T10:00:00.001Z''\<rparr>) PutDrama
            (ex_put (JObj [''id'' \<mapsto> JStr ''zz'', ''created_at'' \<mapsto> JStr ''1998'',
                           ''updated_at'' \<mapsto> JStr ''1999''])) [ex_record]) ! 0)))
   \<and> (snd (app ascii_builtins (ex_env\<lparr>clock := \<lambda>k. ''2024-05-01T10:00:00.001Z''\<rparr>) PutDrama
      (ex_put (JObj [''id'' \<mapsto> JStr ''zz'', ''created_at'' \<mapsto> JStr ''1998'',
                     ''updated_at'' \<mapsto> JStr ''1999''])) [ex_record]) ! 0) ''updated_at''
     = Some (JStr ''2024-05-01T10:00:00.001Z'')
   \<and> (snd (app ascii_builtins (ex_env\<lparr>clock := \<lambda>k. ''2024-05-01T10:00:00.001Z''\<rparr>) PutDrama
      (ex_put (JObj [''id'' \<mapsto> JStr ''zz'', ''created_at'' \<mapsto> JStr ''1998'',
                     ''updated_at'' \<mapsto> JStr ''1999''])) [ex_record]) ! 0) ''id''
     = Some (JStr ''zz'')
   \<and> (snd (app ascii_builtins (ex_env\<lparr>clock := \<lambda>k. ''2024-05-01T10:00:00.001Z''\<rparr>) PutDrama
      (ex_put (JObj [''id'' \<mapsto> JStr ''zz'', ''created_at'' \<mapsto> JStr ''1998'',
                     ''updated_at'' \<mapsto> JStr ''1999''])) [ex_record]) ! 0) ''created_at''
     = Some (JStr ''1998'')"
proof -
  let ?req = "ex_put (JObj [''id'' \<mapsto> JStr ''zz'', ''created_at'' \<mapsto> JStr ''1998'',
                     ''updated_at'' \<mapsto> JStr ''1999''])"
  let ?ev = "ex_env\<lparr>clock := \<lambda>k. ''2024-05-01T10:00:00.001Z''\<rparr>"
  have p: "parse_error ?req = None" and k: "x_api_key ?req = Some (API_KEY ?ev)"
    by (simp_all add: ex_put_def ex_env_def)
  have h: "findIndex (has_id (params_id ?req)) [ex_record] = Some 0"
    by (simp add: ex_put_def ex_record_def has_id_def)
  have b: "spread (body ?req) ''id'' = Some (JStr ''zz'')"
    "spread (body ?req) ''created_at'' = Some (JStr ''1998'')"
    by (simp_all add: ex_put_def spread_def own_props_def)
  from updated_at_server_side [OF p k h, of ascii_builtins]
  obtain item where
    o: "app ascii_builtins ?ev PutDrama ?req [ex_record]
          = (Inr (Response 200 (JObj item)), [ex_record][0 := item])"
    and s: "snd (app ascii_builtins ?ev PutDrama ?req [ex_record]) ! 0 = item"
    and u: "item ''updated_at'' = Some (JStr (clock ?ev 0))"
    and i: "\<forall>v. spread (body ?req) ''id'' = Some v \<longrightarrow> item ''id'' = Some v"
    and c: "\<forall>v. spread (body ?req) ''created_at'' = Some v \<longrightarrow> item ''created_at'' = Some v"
    by blast
  from i b(1) have "item ''id'' = Some (JStr ''zz'')" by blast
  moreover from c b(2) have "item ''created_at'' = Some (JStr ''1998'')" by blast
  moreover from u have "item ''updated_at'' = Some (JStr ''2024-05-01T10:00:00.001Z'')" by simp
  moreover from o s have "fst (app ascii_builtins ?ev PutDrama ?req [ex_record])
      = Inr (Response 200 (JObj (snd (app ascii_builtins ?ev PutDrama ?req [ex_record]) ! 0)))"
    by simp
  ultimately show ?thesis using s by simp
qed

subsection \<open>Uniqueness of ids\<close>




subsection \<open>The API key\<close>

text \<open>
  Claim C5, as amended. A create, update, delete or seed request whose \<open>x-api-key\<close>
  header is absent or differs from the secret leaves the catalog as it was. It is
  answered 401 \<open>{error: "Unauthorized"}\<close> when the JSON parser has accepted its body,
  and with the parser's error when the parser rejects the body, which happens before
  the key is looked at. The answers of list and detail depend neither on the header
  nor on the secret.
\<close>

theorem key_gate:
  "(r \<in> {PostDramas, PutDrama, DeleteDrama, PostSeed} \<and> x_api_key req \<noteq> Some (API_KEY ev)
      \<longrightarrow> snd (app rt ev r req dramas) = dramas
          \<and> (parse_error req = None \<longrightarrow>
                app rt ev r req dramas
                  = (Inr (Response 401 (JObj [''error'' \<mapsto> JStr ''Unauthorized''])), dramas))
          \<and> (\<forall>st. parse_error req = Some st \<longrightarrow>
                app rt ev r req dramas = (Inr (ErrorPage st), dramas)))
   \<and> (r \<in> {GetDramas, GetDrama}
      \<longrightarrow> app rt (ev\<lparr>API_KEY := secret\<rparr>) r (req\<lparr>x_api_key := key\<rparr>) dramas
           = app rt ev r req dramas)"
proof (intro conjI impI allI)
  assume a: "r \<in> {PostDramas, PutDrama, DeleteDrama, PostSeed} \<and> x_api_key req \<noteq> Some (API_KEY ev)"
  then have g: "routes rt ev r req dramas
      = (Inr (Response 401 (JObj [''error'' \<mapsto> JStr ''Unauthorized''])), dramas)"
    by (auto simp: routes_def behind_key_def requireKey_def)
  then show "snd (app rt ev r req dramas) = dramas"
    using app_snd [of rt ev r req dramas] by auto
  show "app rt ev r req dramas
          = (Inr (Response 401 (JObj [''error'' \<mapsto> JStr ''Unauthorized''])), dramas)"
    if "parse_error req = None"
    using that g by (simp add: app_passed)
  show "app rt ev r req dramas = (Inr (ErrorPage st), dramas)"
    if "parse_error req = Some st" for st
    using that by (simp add: app_def)
next
  assume "r \<in> {GetDramas, GetDrama}"
  then show "app rt (ev\<lparr>API_KEY := secret\<rparr>) r (req\<lparr>x_api_key := key\<rparr>) dramas
           = app rt ev r req dramas"
    by (auto simp: app_def routes_def list_dramas_def get_drama_def split: option.splits)
qed

theorem key_gate_witness:
  "x_api_key ex_anon \<noteq> Some (API_KEY ex_env)
   \<and> parse_error ex_anon = None
   \<and> app ascii_builtins ex_env PostDramas ex_anon [ex_record]
       = (Inr (Response 401 (JObj [''error'' \<mapsto> JStr ''Unauthorized''])), [ex_record])
   \<and> x_api_key ex_rejected \<noteq> Some (API_KEY ex_env)
   \<and> parse_error ex_rejected = Some 400
   \<and> snd (app ascii_builtins ex_env PostDramas ex_rejected [ex_record]) = [ex_record]
   \<and> app ascii_builtins ex_env GetDrama ex_anon [ex_record]
       = (Inr (Response 200 (JObj ex_record)), [ex_record])
   \<and> app ascii_builtins ex_env GetDrama (ex_anon\<lparr>x_api_key := Some ''supersecretkey''\<rparr>) [ex_record]
       = (Inr (Response 200 (JObj ex_record)), [ex_record])"
proof -
  have a: "x_api_key ex_anon \<noteq> Some (API_KEY ex_env)" "parse_error ex_anon = None"
    by (simp_all add: ex_anon_def)
  have j: "x_api_key ex_rejected \<noteq> Some (API_KEY ex_env)" "parse_error ex_rejected = Some 400"
    by (simp_all add: ex_rejected_def)
  have m: "PostDramas \<in> {PostDramas, PutDrama, DeleteDrama, PostSeed}"
    "GetDrama \<in> {GetDramas, GetDrama}"
    by simp_all
  have g: "app ascii_builtins ex_env GetDrama ex_anon [ex_record]
       = (Inr (Response 200 (JObj ex_record)), [ex_record])"
    by (simp add: app_def routes_def get_drama_def ex_anon_def has_id_def ex_record_def)
  from key_gate [where r = PostDramas and req = ex_anon and ev = ex_env
      and rt = ascii_builtins and dramas = "[ex_record]"] a m
  have p: "app ascii_builtins ex_env PostDramas ex_anon [ex_record]
       = (Inr (Response 401 (JObj [''error'' \<mapsto> JStr ''Unauthorized''])), [ex_record])"
    by blast
  from key_gate [where r = PostDramas and req = ex_rejected and ev = ex_env
      and rt = ascii_builtins and dramas = "[ex_record]"] j m
  have q: "snd (app ascii_builtins ex_env PostDramas ex_rejected [ex_record]) = [ex_record]"
    by blast
  from key_gate [where r = GetDrama and req = ex_anon and ev = ex_env
      and rt = ascii_builtins and dramas = "[ex_record]" and secret = "API_KEY ex_env"
      and key = "Some ''supersecretkey''"] g m
  have "app ascii_builtins ex_env GetDrama (ex_anon\<lparr>x_api_key := Some ''supersecretkey''\<rparr>) [ex_record]
       = (Inr (Response 200 (JObj ex_record)), [ex_record])"
    by simp
  with a j g p q show ?thesis by simp
qed

text \<open>
  Claim C5 as stated fails: a create request without the key whose body is not JSON
  is answered with the parser's error 400, not with 401.
\<close>

theorem key_gate_counterexample:
  "x_api_key ex_rejected = None
   \<and> app ascii_builtins ex_env PostDramas ex_rejected [ex_record]
       = (Inr (ErrorPage 400), [ex_record])
   \<and> app ascii_builtins ex_env PostDramas ex_rejected [ex_record]
       \<noteq> (Inr (Response 401 (JObj [''error'' \<mapsto> JStr ''Unauthorized''])), [ex_record])"
  by (simp add: app_def ex_rejected_def)

subsection \<open>Delete\<close>

text \<open>
  Claim C8. On a catalog with pairwise distinct ids, an authorised delete of id \<open>X\<close>
  keeps exactly the records whose id is not \<open>X\<close> and answers
  \<open>{ok: true, deleted: d}\<close> where \<open>d\<close>, the number of records with id \<open>X\<close>, is 0 or 1;
  it answers so whether or not \<open>X\<close> is present. A detail request for \<open>X\<close> on the
  catalog it leaves is answered 404 \<open>{error: "Not found"}\<close>. Both requests are
  requests that the JSON parser has passed on to the routes.
\<close>

theorem delete_then_detail:
  assumes "unique_ids dramas" and "x_api_key req = Some (API_KEY ev)"
    and "params_id req' = params_id req"
    and "parse_error req = None" and "parse_error req' = None"
  shows "\<exists>d. (d = 0 \<or> d = 1)
     \<and> d = length (filter (has_id (params_id req)) dramas)
     \<and> app rt ev DeleteDrama req dramas
        = (Inr (Response 200 (JObj [''ok'' \<mapsto> JBool True, ''deleted'' \<mapsto> JNum (of_nat d)])),
           filter (\<lambda>x. \<not> has_id (params_id req) x) dramas)
     \<and> app rt ev' GetDrama req' (snd (app rt ev DeleteDrama req dramas))
        = (Inr (Response 404 (JObj [''error'' \<mapsto> JStr ''Not found''])),
           filter (\<lambda>x. \<not> has_id (params_id req) x) dramas)"
proof -
  let ?kept = "filter (\<lambda>x. \<not> has_id (params_id req) x) dramas"
  let ?d = "length (filter (has_id (params_id req)) dramas)"
  have del: "app rt ev DeleteDrama req dramas
        = (Inr (Response 200 (JObj [''ok'' \<mapsto> JBool True, ''deleted'' \<mapsto> JNum (of_nat ?d)])),
           ?kept)"
    using assms(2,4)
    by (simp add: app_passed routes_def behind_key_ok delete_drama_def Let_def deleted_count)
  have "find (has_id (params_id req')) ?kept = None"
    using assms(3) by (simp add: find_None_iff)
  then have det: "app rt ev' GetDrama req' ?kept = (Inr not_found, ?kept)"
    using assms(5) by (simp add: app_passed routes_def get_drama_def)
  from at_most_one_id [OF assms(1), of "params_id req"] have "?d = 0 \<or> ?d = 1"
    by linarith
  with del det show ?thesis
    by (auto simp: not_found_def)
qed

theorem delete_then_detail_witness:
  "unique_ids [ex_record, ex_other]
   \<and> x_api_key (ex_put JNull) = Some (API_KEY ex_env)
   \<and> app ascii_builtins ex_env DeleteDrama (ex_put JNull) [ex_record, ex_other]
      = (Inr (Response 200 (JObj [''ok'' \<mapsto> JBool True, ''deleted'' \<mapsto> JNum 1])), [ex_other])
   \<and> app ascii_builtins ex_env GetDrama (ex_put JNull)
        (snd (app ascii_builtins ex_env DeleteDrama (ex_put JNull) [ex_record, ex_other]))
      = (Inr (Response 404 (JObj [''error'' \<mapsto> JStr ''Not found''])), [ex_other])"
proof -
  have u: "unique_ids [ex_record, ex_other]"
    by (simp add: unique_ids_def ids_def ex_record_def ex_other_def)
  have k: "x_api_key (ex_put JNull) = Some (API_KEY ex_env)"
    by (simp add: ex_put_def ex_env_def)
  have p: "parse_error (ex_put JNull) = None"
    by (simp add: ex_put_def)
  have f: "filter (\<lambda>x. \<not> has_id (params_id (ex_put JNull)) x) [ex_record, ex_other] = [ex_other]"
    "length (filter (has_id (params_id (ex_put JNull))) [ex_record, ex_other]) = 1"
    by (simp_all add: ex_put_def has_id_def ex_record_def ex_other_def)
  from delete_then_detail [OF u k refl p p, where rt = ascii_builtins and ev' = ex_env] u k f
  show ?thesis by auto
qed

subsection \<open>Seed\<close>




subsection \<open>Year filters\<close>




subsection \<open>Create\<close>

text \<open>
  Claim C4 does not hold of the code: an authorised create whose payload has a title
  that is a number throws a \<open>TypeError\<close>, whatever the built-ins and the catalog; no
  record is made and the catalog is unchanged.
\<close>
theorem create_throws:
  "app rt ex_env PostDramas (ex_put (JObj [''title'' \<mapsto> JNum 123])) dramas
     = (Inl TypeError, dramas)"
  by (simp add: app_def routes_def behind_key_def requireKey_def ex_env_def ex_put_def
        create_drama_def create_item_def title_of_def payload_of_def or_else_def truthy_def
        own_props_def and_then_def)

subsection \<open>Pagination\<close>

text \<open>
  Claim C6, as amended. For a page \<open>p \<ge> 1\<close> and a limit \<open>L \<ge> 1\<close>, both integers,
  \<open>paginate\<close> returns the items at the indices from \<open>(p-1)*L\<close> up to, not including,
  \<open>p*L\<close>; \<open>total\<close> is the length of the list it is given and \<open>pages\<close> is
  \<open>ceil(total/L)\<close>; a page beyond \<open>pages\<close> has no items, and nothing fails. A page or
  limit that is not passed is 1 or 24, and a list request without \<open>page\<close> and \<open>limit\<close>
  is answered as one with \<open>page=1\<close> and \<open>limit=24\<close>.
\<close>

theorem paginate_window:
  assumes "1 \<le> p" and "1 \<le> L"
  shows "items (paginate xs (Some (Fin (of_nat p))) (Some (Fin (of_nat L))))
           = take L (drop ((p - 1) * L) xs)
       \<and> total (paginate xs (Some (Fin (of_nat p))) (Some (Fin (of_nat L)))) = length xs
       \<and> pages (paginate xs (Some (Fin (of_nat p))) (Some (Fin (of_nat L))))
           = Fin (of_int \<lceil>rat_of_nat (length xs) / rat_of_nat L\<rceil>)
       \<and> (\<lceil>rat_of_nat (length xs) / rat_of_nat L\<rceil> < int p \<longrightarrow>
            items (paginate xs (Some (Fin (of_nat p))) (Some (Fin (of_nat L)))) = [])
       \<and> paginate xs None None = paginate xs (Some (Fin 1)) (Some (Fin 24))
       \<and> list_dramas rt (req\<lparr>query := (query req)(''page'' := None, ''limit'' := None)\<rparr>) dramas
           = list_dramas rt (req\<lparr>query := (query req)(''page'' \<mapsto> ''1'', ''limit'' \<mapsto> ''24'')\<rparr>) dramas"
proof -
  let ?pg = "paginate xs (Some (Fin (of_nat p))) (Some (Fin (of_nat L)))"
  have i: "items ?pg = take L (drop ((p - 1) * L) xs)"
    using assms(1) by (simp add: paginate_def Let_def page_start slice_nat del: of_nat_mult)
  have t: "total ?pg = length xs"
    by (simp add: paginate_def Let_def)
  have g: "pages ?pg = Fin (of_int \<lceil>rat_of_nat (length xs) / rat_of_nat L\<rceil>)"
    using assms(2) by (simp add: paginate_def Let_def)
  have e: "items ?pg = []" if "\<lceil>rat_of_nat (length xs) / rat_of_nat L\<rceil> < int p"
  proof -
    from that have "\<lceil>rat_of_nat (length xs) / rat_of_nat L\<rceil> \<le> int (p - 1)"
      using assms(1) by linarith
    then have "rat_of_nat (length xs) / rat_of_nat L \<le> rat_of_nat (p - 1)"
      by (simp add: ceiling_le_iff)
    then have "rat_of_nat (length xs) \<le> rat_of_nat (p - 1) * rat_of_nat L"
      using assms(2) by (simp add: pos_divide_le_eq)
    then have "length xs \<le> (p - 1) * L"
      by (metis of_nat_le_iff of_nat_mult)
    with i show ?thesis by simp
  qed
  have d: "paginate xs None None = paginate xs (Some (Fin 1)) (Some (Fin 24))"
    by (simp add: paginate_def)
  have h: "list_dramas rt (req\<lparr>query := (query req)(''page'' := None, ''limit'' := None)\<rparr>) dramas
           = list_dramas rt (req\<lparr>query := (query req)(''page'' \<mapsto> ''1'', ''limit'' \<mapsto> ''24'')\<rparr>) dramas"
    by (simp add: list_dramas_def with_default_def Let_def)
  from i t g e d h show ?thesis by blast
qed

text \<open>The example of the claim: 30 records and a limit of 24, pages 1, 2 and 3.\<close>

theorem paginate_window_witness:
  "items (paginate (replicate 30 ex_record) (Some (Fin 1)) (Some (Fin 24))) = replicate 24 ex_record
   \<and> pages (paginate (replicate 30 ex_record) (Some (Fin 1)) (Some (Fin 24))) = Fin 2
   \<and> items (paginate (replicate 30 ex_record) (Some (Fin 2)) (Some (Fin 24))) = replicate 6 ex_record
   \<and> items (paginate (replicate 30 ex_record) (Some (Fin 3)) (Some (Fin 24))) = []"
proof -
  have c: "\<lceil>rat_of_nat (length (replicate 30 ex_record)) / rat_of_nat 24\<rceil> = 2"
    by (simp add: ceiling_eq_iff)
  have l: "(1::nat) \<le> 24" "(1::nat) \<le> 1" "(1::nat) \<le> 2" "(1::nat) \<le> 3"
    by simp_all
  from paginate_window [OF l(2) l(1), of "replicate 30 ex_record"]
       paginate_window [OF l(3) l(1), of "replicate 30 ex_record"]
       paginate_window [OF l(4) l(1), of "replicate 30 ex_record"] c
  show ?thesis by simp
qed

text \<open>
  Claim C6 as stated fails for a page below 1: with 30 records and a limit of 24,
  page \<open>-1\<close> is out of the range of the 2 pages and has 6 items, since \<open>slice\<close> counts
  negative bounds from the end of the array.
\<close>

theorem paginate_window_counterexample:
  "StringToNumber ascii_builtins ''-1'' = Fin (- 1)
   \<and> length (items (paginate (replicate 30 ex_record) (Some (Fin (- 1))) (Some (Fin 24)))) = 6
   \<and> pages (paginate (replicate 30 ex_record) (Some (Fin (- 1))) (Some (Fin 24))) = Fin 2"
  by (simp add: paginate_def Let_def num_sub_def num_mul_def slice_def slice_index_def
        trunc_def ceiling_eq_iff ascii_builtins_def dec_number_def digit_value_def)

subsection \<open>Search\<close>

text \<open>
  Claim C7 does not hold of the code: the search throws a \<open>TypeError\<close> on a catalog
  with a record whose title, or whose description when the title does not match, is
  neither a string nor \<open>null\<close>. The first record below has a description that
  contains the search string and is not kept; the second catalog is the one that a
  create with the payload \<open>{"description": true}\<close> leaves.
\<close>

theorem search_throws:
  "ex_untyped ''description'' = Some (JStr ''a story'')
   \<and> includes_str (toLowerCase ascii_builtins ''a story'') (toLowerCase ascii_builtins ''a'')
   \<and> app ascii_builtins ex_env GetDramas (ex_get [''search'' \<mapsto> ''a'']) [ex_untyped]
       = (Inl TypeError, [ex_untyped])
   \<and> length (snd (app ascii_builtins ex_env PostDramas
               (ex_put (JObj [''description'' \<mapsto> JBool True])) [])) = 1
   \<and> fst (app ascii_builtins ex_env GetDramas (ex_get [''search'' \<mapsto> ''a''])
        (snd (app ascii_builtins ex_env PostDramas
               (ex_put (JObj [''description'' \<mapsto> JBool True])) [])))
       = Inl TypeError"
proof -
  let ?post = "ex_put (JObj [''description'' \<mapsto> JBool True])"
  have d: "ex_untyped ''description'' = Some (JStr ''a story'')"
    "ex_untyped ''title'' = Some (JNum 5)"
    by (simp_all add: ex_untyped_def)
  have i: "includes_str (toLowerCase ascii_builtins ''a story'') (toLowerCase ascii_builtins ''a'')"
    by (simp add: ascii_builtins_def ascii_lower_def includes_str_def sublist_code(3) prefix_code)
  have s: "search_step ascii_builtins ''a'' [ex_untyped] = Inl TypeError"
    by (simp add: search_step_def search_match_def lower_includes_def d)
  then have u: "app ascii_builtins ex_env GetDramas (ex_get [''search'' \<mapsto> ''a'']) [ex_untyped]
       = (Inl TypeError, [ex_untyped])"
    by (simp add: app_def routes_def list_dramas_def ex_get_def with_default_def and_then_def Let_def)
  have t: "title_of ascii_builtins (payload_of (body ?post)) = Inr (JStr ''Untitled'')"
    by (simp add: title_of_def payload_of_def or_else_def truthy_def own_props_def ex_put_def)
  from create_item_normalises [OF t, of "clock ex_env 0" "nanoid ex_env 0"]
  obtain item where
    c: "create_item ascii_builtins (clock ex_env 0) (nanoid ex_env 0) (payload_of (body ?post))
          = Inr item"
    and n: "item ''title'' = Some (JStr ''Untitled'')"
    by blast
  from create_item_description [OF c]
  have e: "item ''description'' = Some (JBool True)"
    by (simp add: payload_of_def or_else_def truthy_def own_props_def ex_put_def)
  have p: "snd (app ascii_builtins ex_env PostDramas ?post []) = [item]"
    using c by (simp add: app_def routes_def behind_key_def requireKey_def create_drama_def Let_def
                  ex_put_def ex_env_def)
  have l: "\<not> includes_str (toLowerCase ascii_builtins ''Untitled'') (toLowerCase ascii_builtins ''a'')"
    by (simp add: ascii_builtins_def ascii_lower_def includes_str_def sublist_code(3) prefix_code)
  have "search_step ascii_builtins ''a'' [item] = Inl TypeError"
    using l by (simp add: search_step_def search_match_def lower_includes_def n e)
  then have "fst (app ascii_builtins ex_env GetDramas (ex_get [''search'' \<mapsto> ''a'']) [item])
       = Inl TypeError"
    by (simp add: app_def routes_def list_dramas_def ex_get_def with_default_def and_then_def Let_def)
  with d i u p show ?thesis by simp
qed

end
